theory Spec2Isabelle
  imports Complex_Main "HOL-Library.Sublist" "HOL-Library.Log_Nat"
begin

section \<open>The usability-testing questionnaire (p1.py)\<close>

text \<open>
  The program is one Streamlit script: \<^verbatim>\<open>main\<close> is run from top to bottom at every
  interaction of the user, with the values the widgets hold at that moment. Two helper
  functions, \<^verbatim>\<open>save_to_csv\<close> and \<^verbatim>\<open>load_from_csv\<close>, append one record to a CSV
  file and read a CSV file back through pandas.
\<close>

subsection \<open>Python values, records and files\<close>

text \<open>
  The scalar values the forms produce: text, integers (\<^verbatim>\<open>number_input\<close> with
  \<^verbatim>\<open>step=1\<close>, sliders), booleans (check boxes) and floats (timer readings). A finite
  float is a rational number, and the program only compares floats with zero and
  subtracts two clock readings, so a float is held as the rational it denotes.
\<close>

datatype pyval = PStr string | PInt int | PBool bool | PFloat rat

text \<open>
  A \<^verbatim>\<open>data_dict\<close> is a Python dict literal: its keys in the order written, each with
  its value.
\<close>

type_synonym data_dict = "(string \<times> pyval) list"

definition keys :: "data_dict \<Rightarrow> pyval list" where
  "keys d = map (\<lambda>kv. PStr (fst kv)) d"

definition vals :: "data_dict \<Rightarrow> pyval list" where
  "vals d = map snd d"

text \<open>
  A CSV file is the list of its lines, and a line is the list of its cells. A cell holds
  the value that was written: how pandas spells a value as text and how
  \<^verbatim>\<open>read_csv\<close> guesses a type back from the text are pandas' business and not part
  of this model. The file system maps a path to the file's lines; a path that is not
  mapped does not exist. Directories, permissions and I/O failures are outside the model.
\<close>

type_synonym csv_line = "pyval list"

type_synonym filesystem = "string \<rightharpoonup> csv_line list"

definition isfile :: "filesystem \<Rightarrow> string \<Rightarrow> bool" where
  "isfile fs path = (fs path \<noteq> None)"

text \<open>A pandas table: the column labels and the rows; the index is never used.\<close>

record DataFrame =
  df_columns :: "pyval list"
  df_rows :: "pyval list list"

text \<open>\<^verbatim>\<open>pd.DataFrame([data_dict])\<close>: one row, the dict's keys as columns.\<close>

definition DataFrame_of :: "data_dict \<Rightarrow> DataFrame" where
  "DataFrame_of d = \<lparr>df_columns = keys d, df_rows = [vals d]\<rparr>"

text \<open>\<^verbatim>\<open>pd.DataFrame()\<close>: no columns and no rows.\<close>

definition DataFrame_empty :: DataFrame where
  "DataFrame_empty = \<lparr>df_columns = [], df_rows = []\<rparr>"

text \<open>\<^verbatim>\<open>df.empty\<close>: one of the two axes has length zero.\<close>

definition empty_df :: "DataFrame \<Rightarrow> bool" where
  "empty_df df = (df_columns df = [] \<or> df_rows df = [])"

datatype py_error = EmptyDataError | ParserError | KeyError | TypeError | FileNotFoundError

subsection \<open>pandas: \<^verbatim>\<open>to_csv\<close> and \<^verbatim>\<open>read_csv\<close>\<close>

datatype write_mode = W | A

text \<open>
  \<^verbatim>\<open>df.to_csv(path, mode=m, header=h, index=False)\<close> writes the column labels as one
  line when \<open>h\<close> is set, then one line per row. Mode \<open>W\<close> truncates the file, mode
  \<open>A\<close> writes behind what is there; both create a file that does not exist.
\<close>

definition to_csv :: "DataFrame \<Rightarrow> string \<Rightarrow> write_mode \<Rightarrow> bool \<Rightarrow> filesystem \<Rightarrow> filesystem" where
  "to_csv df path mode header fs =
     (let out = (if header then [df_columns df] else []) @ df_rows df;
          old = (case mode of
                   W \<Rightarrow> []
                 | A \<Rightarrow> (case fs path of None \<Rightarrow> [] | Some ls \<Rightarrow> ls))
      in fs(path \<mapsto> old @ out))"

text \<open>
  \<^verbatim>\<open>pd.read_csv(path)\<close> on an existing file: the first line gives the column labels,
  every further line is a row. Blank lines (lines without a cell) are skipped, and a file
  with no other line raises \<^verbatim>\<open>EmptyDataError\<close>.
  The model covers rectangular files, which are the only ones the program produces when
  every file is written by its own form: a file with a line whose number of cells is not
  the header's is answered with \<^verbatim>\<open>ParserError\<close> (pandas rejects a longer line and
  fills a shorter one with missing values; no statement below reads such a file).
\<close>

definition rectangular :: "csv_line list \<Rightarrow> bool" where
  "rectangular ls =
     (case ls of [] \<Rightarrow> True | h # rs \<Rightarrow> list_all (\<lambda>r. length r = length h) rs)"

definition read_csv :: "string \<Rightarrow> filesystem \<Rightarrow> py_error + DataFrame" where
  "read_csv path fs =
     (case fs path of
        None \<Rightarrow> Inl FileNotFoundError
      | Some ls \<Rightarrow>
          (case filter (\<lambda>l. l \<noteq> []) ls of
             [] \<Rightarrow> Inl EmptyDataError
           | h # rs \<Rightarrow>
               if rectangular (h # rs)
               then Inr \<lparr>df_columns = h, df_rows = rs\<rparr>
               else Inl ParserError))"

subsection \<open>The row store: \<^verbatim>\<open>save_to_csv\<close> and \<^verbatim>\<open>load_from_csv\<close>\<close>

definition save_to_csv :: "data_dict \<Rightarrow> string \<Rightarrow> filesystem \<Rightarrow> filesystem" where
  "save_to_csv data_dict csv_file fs =
     (let df_new = DataFrame_of data_dict
      in if \<not> isfile fs csv_file
         then to_csv df_new csv_file W True fs
         else to_csv df_new csv_file A False fs)"

definition load_from_csv :: "string \<Rightarrow> filesystem \<Rightarrow> py_error + DataFrame" where
  "load_from_csv csv_file fs =
     (if isfile fs csv_file then read_csv csv_file fs else Inr DataFrame_empty)"

text \<open>
  The rows of a file as the report counts them: the lines behind the header line, and
  none for a file that does not exist.
\<close>

definition data_rows :: "string \<Rightarrow> filesystem \<Rightarrow> csv_line list" where
  "data_rows path fs = (case fs path of None \<Rightarrow> [] | Some ls \<Rightarrow> tl ls)"

definition row_count :: "string \<Rightarrow> filesystem \<Rightarrow> nat" where
  "row_count path fs = length (data_rows path fs)"

text \<open>Several appends to one file, one call of \<^verbatim>\<open>save_to_csv\<close> after the other.\<close>

fun save_all :: "data_dict list \<Rightarrow> string \<Rightarrow> filesystem \<Rightarrow> filesystem" where
  "save_all [] csv_file fs = fs"
| "save_all (d # ds) csv_file fs = save_all ds csv_file (save_to_csv d csv_file fs)"

subsection \<open>Floats and their display\<close>

text \<open>
  Python's float is the IEEE double. \<open>double_of x\<close> is the double nearest to the
  rational \<open>x\<close> (ties to the even mantissa), for magnitudes in the normal range of a
  double; it is what a float division or subtraction returns for the exact result
  \<open>x\<close>. \<open>ilog2 x\<close> is the binary exponent of a positive \<open>x\<close>, the integer \<open>e\<close>
  with \<open>2^e \<le> x < 2^(e+1)\<close>.
\<close>

definition pow2 :: "int \<Rightarrow> rat" where
  "pow2 e = (if 0 \<le> e then 2 ^ nat e else 1 / 2 ^ nat (- e))"

definition round_half_even :: "rat \<Rightarrow> int" where
  "round_half_even x =
     (let f = \<lfloor>x\<rfloor>; d = x - of_int f
      in if d < 1 / 2 then f
         else if 1 / 2 < d then f + 1
         else if even f then f else f + 1)"

definition ilog2 :: "rat \<Rightarrow> int" where
  "ilog2 x =
     (if 1 \<le> x then int (floorlog 2 (nat \<lfloor>x\<rfloor>)) - 1
      else - int (floorlog 2 (nat (\<lceil>1 / x\<rceil> - 1))))"

definition double_of :: "rat \<Rightarrow> rat" where
  "double_of x =
     (if x = 0 then 0
      else let e = ilog2 \<bar>x\<bar> - 52;
               m = round_half_even (\<bar>x\<bar> / pow2 e)
           in sgn x * of_int m * pow2 e)"

text \<open>Decimal digits of a natural number, as \<^verbatim>\<open>str\<close> prints them.\<close>

definition digit :: "nat \<Rightarrow> char" where
  "digit n = ''0123456789'' ! (n mod 10)"

fun str_nat :: "nat \<Rightarrow> string" where
  "str_nat n = (if n < 10 then [digit n] else str_nat (n div 10) @ [digit n])"

declare str_nat.simps [simp del]

text \<open>
  \<^verbatim>\<open>f"{x:.2f}"\<close>: the float rounded to two decimals (ties to even, decided on the
  exact value of the float), with a minus sign for a negative float. A mean over no
  number at all is \<^verbatim>\<open>nan\<close>, here \<open>None\<close>.
\<close>

definition format_2f :: "rat \<Rightarrow> string" where
  "format_2f x =
     (let n = nat (round_half_even (\<bar>x\<bar> * 100))
      in (if x < 0 then ''-'' else '''') @ str_nat (n div 100) @ ''.''
           @ [digit (n div 10), digit n])"

definition format_2f_nan :: "rat option \<Rightarrow> string" where
  "format_2f_nan x = (case x of None \<Rightarrow> ''nan'' | Some v \<Rightarrow> format_2f v)"

text \<open>\<^verbatim>\<open>f"{x: .2f}"\<close>: the same with a blank in the place of the sign of a float that is not negative.\<close>

definition format_space_2f :: "rat \<Rightarrow> string" where
  "format_space_2f x = (if x < 0 then format_2f x else '' '' @ format_2f x)"

subsection \<open>pandas: a column and its mean\<close>

fun index_of :: "'a \<Rightarrow> 'a list \<Rightarrow> nat option" where
  "index_of x [] = None"
| "index_of x (y # ys) = (if x = y then Some 0 else map_option Suc (index_of x ys))"

text \<open>
  \<^verbatim>\<open>df[label]\<close>: the cells under the first column with that label;
  \<^verbatim>\<open>KeyError\<close> when no column has it.
\<close>

definition column :: "DataFrame \<Rightarrow> pyval \<Rightarrow> py_error + pyval list" where
  "column df label =
     (case index_of label (df_columns df) of
        None \<Rightarrow> Inl KeyError
      | Some k \<Rightarrow> Inr (List.map_filter (\<lambda>r. if k < length r then Some (r ! k) else None) (df_rows df)))"

fun number :: "pyval \<Rightarrow> rat option" where
  "number (PInt n) = Some (of_int n)"
| "number (PFloat x) = Some x"
| "number (PBool b) = Some (if b then 1 else 0)"
| "number (PStr s) = None"

fun numbers :: "pyval list \<Rightarrow> rat list option" where
  "numbers [] = Some []"
| "numbers (c # cs) =
     (case number c of
        None \<Rightarrow> None
      | Some x \<Rightarrow> (case numbers cs of None \<Rightarrow> None | Some xs \<Rightarrow> Some (x # xs)))"

text \<open>
  \<^verbatim>\<open>series.mean()\<close>: the sum of the cells divided, as floats, by their number. The
  sum is taken exactly, as pandas does for the integers of a questionnaire (exact below
  \<open>2^53\<close>). A column with a text cell raises \<^verbatim>\<open>TypeError\<close>.
\<close>

definition mean :: "pyval list \<Rightarrow> py_error + rat option" where
  "mean cells =
     (case numbers cells of
        None \<Rightarrow> Inl TypeError
      | Some [] \<Rightarrow> Inr None
      | Some (x # xs) \<Rightarrow> Inr (Some (double_of (sum_list (x # xs) / of_nat (length (x # xs))))))"

subsection \<open>The files of the four forms\<close>

definition DATA_FOLDER :: string where
  "DATA_FOLDER = ''data''"

text \<open>\<^verbatim>\<open>os.path.join\<close> of two parts, on a system whose separator is the slash.\<close>

definition path_join :: "string \<Rightarrow> string \<Rightarrow> string" where
  "path_join a b =
     (if take 1 b = ''/'' then b
      else if a = '''' \<or> drop (length a - 1) a = ''/'' then a @ b
      else a @ ''/'' @ b)"

definition CONSENT_CSV :: string where
  "CONSENT_CSV = path_join DATA_FOLDER ''consent_data.csv''"

definition DEMOGRAPHIC_CSV :: string where
  "DEMOGRAPHIC_CSV = path_join DATA_FOLDER ''demographic_data.csv''"

definition TASK_CSV :: string where
  "TASK_CSV = path_join DATA_FOLDER ''task_data.csv''"

definition EXIT_CSV :: string where
  "EXIT_CSV = path_join DATA_FOLDER ''exit_data.csv''"

subsection \<open>One run of the script\<close>

text \<open>
  What one run of \<^verbatim>\<open>main\<close> reads from outside: the clock (as
  \<^verbatim>\<open>time.strftime("%Y-%m-%d %H:%M:%S")\<close> and as \<^verbatim>\<open>time.time()\<close>), the value of
  every widget, for every button whether it was pressed, and the bytes of the picture the
  exit form opens (\<open>None\<close> when it cannot be opened). The bug report widgets only
  exist while the bug check box is ticked; their fields are read in that case only.
\<close>

record inputs =
  now_text :: string
  now :: rat
  consent_given :: bool
  submit_consent :: bool
  name :: string
  age :: int
  occupation :: string
  familiarity :: string
  submitted :: bool
  selected_task :: string
  start_button :: bool
  stop_button :: bool
  success :: string
  bugs :: bool
  traceback :: string
  bug_desc :: string
  bug_imp :: int
  notes_text :: string
  save_task :: bool
  satisfaction :: int
  difficulty :: int
  open_feedback :: string
  submitted_exit :: bool
  gif_file :: "string option"

text \<open>\<^verbatim>\<open>st.session_state\<close>: the two keys the task timer uses; \<open>None\<close> is a missing key.\<close>

record session_state =
  start_time :: "rat option"
  task_duration :: "rat option"

text \<open>
  What a run shows. Widgets that show fixed text only (title, headers, the introduction,
  the consent terms, the task descriptions) read and change nothing and are left out; the
  picture is kept as the bytes read, without its base64 spelling.
\<close>

datatype st_out =
    Warning string
  | Success string
  | Info string
  | Write string
  | Subheader string
  | Dataframe DataFrame
  | Markdown_gif string
  | Video string

record app_state =
  files :: filesystem
  session :: session_state
  shown :: "st_out list"

definition st :: "st_out \<Rightarrow> app_state \<Rightarrow> app_state" where
  "st x s = s\<lparr>shown := shown s @ [x]\<rparr>"

definition save :: "data_dict \<Rightarrow> string \<Rightarrow> app_state \<Rightarrow> app_state" where
  "save data_dict csv_file s = s\<lparr>files := save_to_csv data_dict csv_file (files s)\<rparr>"

text \<open>A run ends normally or with an exception nobody catches; what was written before stays.\<close>

datatype outcome = Done app_state | Raised py_error app_state

fun result_state :: "outcome \<Rightarrow> app_state" where
  "result_state (Done s) = s"
| "result_state (Raised e s) = s"

fun and_then :: "outcome \<Rightarrow> (app_state \<Rightarrow> outcome) \<Rightarrow> outcome" where
  "and_then (Done s) f = f s"
| "and_then (Raised e s) f = Raised e s"

subsubsection \<open>Consent\<close>

definition consent_tab :: "inputs \<Rightarrow> app_state \<Rightarrow> app_state" where
  "consent_tab i s =
     (if submit_consent i then
        if \<not> consent_given i then
          st (Warning ''You must agree to the consent terms before proceeding.'') s
        else
          let s1 = st (Success ''Your consent has been recorded. Thank you!'') s;
              data_dict = [(''timestamp'', PStr (now_text i)),
                           (''consent_given'', PBool (consent_given i))]
          in save data_dict CONSENT_CSV s1
      else s)"

subsubsection \<open>Demographics\<close>

definition demographics_tab :: "inputs \<Rightarrow> app_state \<Rightarrow> app_state" where
  "demographics_tab i s =
     (if submitted i then
        if age i < 18 then
          st (Warning ''You must be 18 or older to fill this form out.'') s
        else if occupation i = '''' then
          st (Warning ''Please fill out the occupation field.'') s
        else
          let data_dict = [(''timestamp'', PStr (now_text i)),
                           (''name'', PStr (name i)),
                           (''age'', PInt (age i)),
                           (''occupation'', PStr (occupation i)),
                           (''familiarity'', PStr (familiarity i))]
          in st (Success ''Demographic data saved.'') (save data_dict DEMOGRAPHIC_CSV s)
      else s)"

subsubsection \<open>Task\<close>

text \<open>
  \<^verbatim>\<open>duration_val if duration_val else ""\<close>: \<^verbatim>\<open>None\<close> and the float zero are
  false, every other float is true.
\<close>

definition duration_cell :: "rat option \<Rightarrow> pyval" where
  "duration_cell duration_val =
     (case duration_val of
        None \<Rightarrow> PStr ''''
      | Some x \<Rightarrow> if x \<noteq> 0 then PFloat x else PStr '''')"

definition start_timer :: "inputs \<Rightarrow> app_state \<Rightarrow> app_state" where
  "start_timer i s =
     (if start_button i then
        st (Info ''Timer has started. Please complete your task and then click the 'Stop Task Timer' button to stop.'')
          (s\<lparr>session := (session s)\<lparr>start_time := Some (now i)\<rparr>\<rparr>)
      else s)"

definition stop_timer :: "inputs \<Rightarrow> app_state \<Rightarrow> app_state" where
  "stop_timer i s =
     (case start_time (session s) of
        None \<Rightarrow> s
      | Some t0 \<Rightarrow>
          if stop_button i then
            let duration = double_of (now i - t0)
            in (st (Success (''Task completed in '' @ format_space_2f duration @ '' seconds!'')) s)
                 \<lparr>session := (session s)\<lparr>task_duration := Some duration\<rparr>\<rparr>
          else s)"

definition save_task_results :: "inputs \<Rightarrow> app_state \<Rightarrow> app_state" where
  "save_task_results i s =
     (if save_task i then
        let duration_val = task_duration (session s);
            data_dict = [(''timestamp'', PStr (now_text i)),
                         (''task_name'', PStr (selected_task i)),
                         (''success'', PStr (success i)),
                         (''duration_seconds'', duration_cell duration_val),
                         (''bug'', if bugs i then PStr (traceback i) else PStr ''''),
                         (''bug_description'', if bugs i then PStr (bug_desc i) else PStr ''''),
                         (''bug_impact'', if bugs i then PInt (bug_imp i) else PStr ''''),
                         (''notes'', PStr (notes_text i))];
            s1 = st (Success ''Task data saved.'') (save data_dict TASK_CSV s)
        in \<comment> \<open>both keys of the timer are deleted when present\<close>
           s1\<lparr>session := \<lparr>start_time = None, task_duration = None\<rparr>\<rparr>
      else s)"

definition tasks_tab :: "inputs \<Rightarrow> app_state \<Rightarrow> app_state" where
  "tasks_tab i s = save_task_results i (stop_timer i (start_timer i s))"

subsubsection \<open>Exit questionnaire\<close>

definition exit_tab :: "inputs \<Rightarrow> app_state \<Rightarrow> outcome" where
  "exit_tab i s =
     (if submitted_exit i then
        let data_dict = [(''timestamp'', PStr (now_text i)),
                         (''satisfaction'', PInt (satisfaction i)),
                         (''difficulty'', PInt (difficulty i)),
                         (''open_feedback'', PStr (open_feedback i))];
            s1 = save data_dict EXIT_CSV s
        in case gif_file i of
             None \<Rightarrow> Raised FileNotFoundError s1
           | Some contents \<Rightarrow>
               Done (st (Video ''https://www.youtube.com/watch?v=NUYvbT6vTPs'')
                      (st (Markdown_gif contents)
                        (st (Success ''Exit questionnaire data saved. (was feeling silly, pls dont mark me down for this T^T)'')
                          s1)))
      else Done s)"

subsubsection \<open>Report\<close>

text \<open>One of the four blocks of the report: the caption, then the table or a note that there is none.\<close>

definition show_table :: "DataFrame \<Rightarrow> string \<Rightarrow> app_state \<Rightarrow> app_state" where
  "show_table df none_yet s = (if \<not> empty_df df then st (Dataframe df) s else st (Info none_yet) s)"

definition exit_averages :: "DataFrame \<Rightarrow> app_state \<Rightarrow> outcome" where
  "exit_averages exit_df s =
     (if \<not> empty_df exit_df then
        let s1 = st (Subheader ''Exit Questionnaire Averages'') s
        in case column exit_df (PStr ''satisfaction'') of
             Inl e \<Rightarrow> Raised e s1
           | Inr sat \<Rightarrow>
         (case mean sat of
             Inl e \<Rightarrow> Raised e s1
           | Inr avg_satisfaction \<Rightarrow>
         (case column exit_df (PStr ''difficulty'') of
             Inl e \<Rightarrow> Raised e s1
           | Inr dif \<Rightarrow>
         (case mean dif of
             Inl e \<Rightarrow> Raised e s1
           | Inr avg_difficulty \<Rightarrow>
               Done (st (Write (''**Average Difficulty**: '' @ format_2f_nan avg_difficulty))
                      (st (Write (''**Average Satisfaction**: '' @ format_2f_nan avg_satisfaction))
                        s1)))))
      else Done s)"

definition report_tab :: "app_state \<Rightarrow> outcome" where
  "report_tab s =
     (let s1 = st (Write ''**Consent Data**'') s
      in case load_from_csv CONSENT_CSV (files s1) of
           Inl e \<Rightarrow> Raised e s1
         | Inr consent_df \<Rightarrow>
     (let s2 = st (Write ''**Demographic Data**'')
                 (show_table consent_df ''No consent data available yet.'' s1)
      in case load_from_csv DEMOGRAPHIC_CSV (files s2) of
           Inl e \<Rightarrow> Raised e s2
         | Inr demographic_df \<Rightarrow>
     (let s3 = st (Write ''**Task Performance Data**'')
                 (show_table demographic_df ''No demographic data available yet.'' s2)
      in case load_from_csv TASK_CSV (files s3) of
           Inl e \<Rightarrow> Raised e s3
         | Inr task_df \<Rightarrow>
     (let s4 = st (Write ''**Exit Questionnaire Data**'')
                 (show_table task_df ''No task data available yet.'' s3)
      in case load_from_csv EXIT_CSV (files s4) of
           Inl e \<Rightarrow> Raised e s4
         | Inr exit_df \<Rightarrow>
             exit_averages exit_df
               (show_table exit_df ''No exit questionnaire data available yet.'' s4)))))"

subsubsection \<open>The script\<close>

text \<open>
  Streamlit runs the code of every tab at every run, in the order of the script, on a
  page that starts blank.
\<close>

definition main :: "inputs \<Rightarrow> app_state \<Rightarrow> outcome" where
  "main i s =
     and_then
       (exit_tab i (tasks_tab i (demographics_tab i (consent_tab i (s\<lparr>shown := []\<rparr>)))))
       report_tab"

text \<open>Run after run: the files and the session state go from one run to the next.\<close>

fun runs :: "inputs list \<Rightarrow> app_state \<Rightarrow> app_state" where
  "runs [] s = s"
| "runs (i # rest) s = runs rest (result_state (main i s))"

definition initial :: app_state where
  "initial = \<lparr>files = Map.empty,
              session = \<lparr>start_time = None, task_duration = None\<rparr>,
              shown = []\<rparr>"

text \<open>
  The widgets as a visitor finds them before touching anything (each at its default),
  with no button pressed, at some time of day.
\<close>

definition idle :: inputs where
  "idle = \<lparr>now_text = ''2024-05-01 10:00:00'', now = 1714557600,
            consent_given = False, submit_consent = False,
            name = '''', age = 1, occupation = '''', familiarity = ''Not Familiar'',
            submitted = False,
            selected_task = ''Task 1: Create a team of 6 Pok'' @ [CHR 0xC3, CHR 0xA9] @ ''mon'',
            start_button = False, stop_button = False, success = ''Yes'', bugs = False,
            traceback = '''', bug_desc = '''', bug_imp = 3, notes_text = '''',
            save_task = False,
            satisfaction = 3, difficulty = 3, open_feedback = '''', submitted_exit = False,
            gif_file = None\<rparr>"

subsection \<open>Notions the statements use\<close>

text \<open>The exception a run ended with, if any.\<close>

fun raised :: "outcome \<Rightarrow> py_error option" where
  "raised (Done s) = None"
| "raised (Raised e s) = Some e"

text \<open>
  The consent file as the consent form leaves it: absent, or the header line of the
  consent record followed by lines made of a time and the value \<open>True\<close>.
\<close>

fun consent_line_ok :: "csv_line \<Rightarrow> bool" where
  "consent_line_ok [PStr t, PBool b] = b"
| "consent_line_ok r = False"

definition consent_file_ok :: "csv_line list option \<Rightarrow> bool" where
  "consent_file_ok f =
     (case f of
        None \<Rightarrow> True
      | Some [] \<Rightarrow> False
      | Some (h # rs) \<Rightarrow>
          h = [PStr ''timestamp'', PStr ''consent_given''] \<and> list_all consent_line_ok rs)"

text \<open>
  The exit file as the exit form writes it: the header line of the exit record, and one
  line per answer (time, satisfaction, difficulty, feedback).
\<close>

definition exit_header :: csv_line where
  "exit_header = [PStr ''timestamp'', PStr ''satisfaction'', PStr ''difficulty'', PStr ''open_feedback'']"

record exit_answer =
  answered :: string
  satisfied :: int
  difficult :: int
  feedback :: string

definition exit_line :: "exit_answer \<Rightarrow> csv_line" where
  "exit_line a = [PStr (answered a), PInt (satisfied a), PInt (difficult a), PStr (feedback a)]"

text \<open>The lines of the page that show an average.\<close>

fun is_average :: "st_out \<Rightarrow> bool" where
  "is_average (Write w) = (take 9 w = ''**Average'')"
| "is_average x = False"

text \<open>The arithmetic mean of integers, as the float the division returns.\<close>

definition float_mean :: "int list \<Rightarrow> rat" where
  "float_mean ns = double_of (of_int (sum_list ns) / of_nat (length ns))"

section \<open>Properties of the row store\<close>

lemma save_to_csv_new:
  "fs p = None \<Longrightarrow> save_to_csv d p fs = fs(p \<mapsto> [keys d, vals d])"
  by (simp add: save_to_csv_def isfile_def to_csv_def DataFrame_of_def)

lemma save_to_csv_old:
  "fs p = Some old \<Longrightarrow> save_to_csv d p fs = fs(p \<mapsto> old @ [vals d])"
  by (simp add: save_to_csv_def isfile_def to_csv_def DataFrame_of_def)

lemma save_to_csv_other:
  "q \<noteq> p \<Longrightarrow> save_to_csv d p fs q = fs q"
  by (simp add: save_to_csv_def isfile_def to_csv_def Let_def)

lemma save_to_csv_not_empty:
  "save_to_csv d p fs p \<noteq> Some []"
  by (cases "fs p") (simp_all add: save_to_csv_new save_to_csv_old)

lemma row_count_save:
  "fs p \<noteq> Some [] \<Longrightarrow> row_count p (save_to_csv d p fs) = row_count p fs + 1"
  by (cases "fs p") (simp_all add: save_to_csv_new save_to_csv_old row_count_def data_rows_def)

lemma row_count_other:
  "q \<noteq> p \<Longrightarrow> row_count q (save_to_csv d p fs) = row_count q fs"
  by (simp add: row_count_def data_rows_def save_to_csv_other)

lemma save_all_old:
  "fs p = Some old \<Longrightarrow> save_all ds p fs p = Some (old @ map vals ds)"
proof (induction ds arbitrary: fs old)
  case Nil
  then show ?case by simp
next
  case (Cons d ds)
  have "save_to_csv d p fs p = Some (old @ [vals d])"
    using Cons.prems by (simp add: save_to_csv_old)
  then have "save_all ds p (save_to_csv d p fs) p = Some ((old @ [vals d]) @ map vals ds)"
    by (rule Cons.IH)
  then show ?case by simp
qed

lemma save_all_other:
  "q \<noteq> p \<Longrightarrow> save_all ds p fs q = fs q"
  by (induction ds arbitrary: fs) (simp_all add: save_to_csv_other)

text \<open>
  C3. \<^verbatim>\<open>save_to_csv\<close> on a target that does not exist creates it with two lines, the
  header line made of the record's field names and the line of the record's values; on
  a target that exists it adds the line of values behind the old lines and writes no
  header.
\<close>

theorem save_to_csv_creates_or_appends:
  "(fs p = None \<longrightarrow> save_to_csv d p fs = fs(p \<mapsto> [keys d, vals d])) \<and>
   (\<forall>old. fs p = Some old \<longrightarrow> save_to_csv d p fs = fs(p \<mapsto> old @ [vals d]))"
  by (simp add: save_to_csv_new save_to_csv_old)

theorem save_to_csv_creates_or_appends_witness:
  "Map.empty ''data/exit_data.csv'' = (None :: csv_line list option) \<and>
   save_to_csv [(''satisfaction'', PInt 4), (''open_feedback'', PStr ''ok'')]
       ''data/exit_data.csv'' Map.empty ''data/exit_data.csv''
     = Some [[PStr ''satisfaction'', PStr ''open_feedback''], [PInt 4, PStr ''ok'']] \<and>
   save_to_csv [(''satisfaction'', PInt 2), (''open_feedback'', PStr '''')]
       ''data/exit_data.csv''
       [''data/exit_data.csv'' \<mapsto> [[PStr ''satisfaction'', PStr ''open_feedback''], [PInt 4, PStr ''ok'']]]
       ''data/exit_data.csv''
     = Some [[PStr ''satisfaction'', PStr ''open_feedback''], [PInt 4, PStr ''ok''], [PInt 2, PStr '''']]"
  using save_to_csv_creates_or_appends
          [of Map.empty "''data/exit_data.csv''"
              "[(''satisfaction'', PInt 4), (''open_feedback'', PStr ''ok'')]"]
        save_to_csv_creates_or_appends
          [of "[''data/exit_data.csv'' \<mapsto> [[PStr ''satisfaction'', PStr ''open_feedback''], [PInt 4, PStr ''ok'']]]"
              "''data/exit_data.csv''"
              "[(''satisfaction'', PInt 2), (''open_feedback'', PStr '''')]"]
  by (simp add: keys_def vals_def)



text \<open>
  C6. Appending to a file that exists leaves what it holds in place: after any number
  of calls of \<^verbatim>\<open>save_to_csv\<close> on the target the old lines are a prefix of the new
  ones, every old line stands where it stood, the header line (the first one) is the
  same, and only the lines of values of the appended records were added.
\<close>

theorem append_keeps_old_lines:
  "fs p = Some old \<Longrightarrow>
     (\<exists>new. save_all ds p fs p = Some new \<and>
        new = old @ map vals ds \<and>
        prefix old new \<and>
        (\<forall>i < length old. new ! i = old ! i) \<and>
        (old \<noteq> [] \<longrightarrow> hd new = hd old))"
  by (simp add: save_all_old nth_append)

theorem append_keeps_old_lines_witness:
  "[''data/exit_data.csv'' \<mapsto> [[PStr ''satisfaction''], [PInt 4]]] ''data/exit_data.csv''
     = Some [[PStr ''satisfaction''], [PInt 4]] \<and>
   (\<exists>new. save_all [[(''satisfaction'', PInt 2)], [(''satisfaction'', PInt 5)]] ''data/exit_data.csv''
        [''data/exit_data.csv'' \<mapsto> [[PStr ''satisfaction''], [PInt 4]]] ''data/exit_data.csv'' = Some new \<and>
      new = [[PStr ''satisfaction''], [PInt 4], [PInt 2], [PInt 5]] \<and>
      prefix [[PStr ''satisfaction''], [PInt 4]] new \<and>
      hd new = [PStr ''satisfaction''])"
  using append_keeps_old_lines
          [of "[''data/exit_data.csv'' \<mapsto> [[PStr ''satisfaction''], [PInt 4]]]"
              "''data/exit_data.csv''" "[[PStr ''satisfaction''], [PInt 4]]"
              "[[(''satisfaction'', PInt 2)], [(''satisfaction'', PInt 5)]]"]
  by (simp add: vals_def)

text \<open>
  C7. \<^verbatim>\<open>save_to_csv\<close> does not compare the record's field names with the header of
  a file that exists: for a record whose field names differ from the header the call
  returns normally (the function has no failing branch) with the record's values added
  as the last line under the unchanged header, and when the record has another number
  of fields than the header the file is no longer rectangular.
\<close>

theorem append_ignores_header:
  "fs p = Some (h # rs) \<Longrightarrow> keys d \<noteq> h \<Longrightarrow>
     save_to_csv d p fs = fs(p \<mapsto> h # rs @ [vals d]) \<and>
     (length d \<noteq> length h \<longrightarrow> \<not> rectangular (h # rs @ [vals d]))"
  by (simp add: save_to_csv_old rectangular_def vals_def)

theorem append_ignores_header_witness:
  "[''data/consent_data.csv'' \<mapsto> [[PStr ''timestamp'', PStr ''consent_given''], [PStr ''t0'', PBool True]]]
       ''data/consent_data.csv''
     = Some ([PStr ''timestamp'', PStr ''consent_given''] # [[PStr ''t0'', PBool True]]) \<and>
   keys [(''timestamp'', PStr ''t1''), (''satisfaction'', PInt 4), (''difficulty'', PInt 2)]
     \<noteq> [PStr ''timestamp'', PStr ''consent_given''] \<and>
   save_to_csv [(''timestamp'', PStr ''t1''), (''satisfaction'', PInt 4), (''difficulty'', PInt 2)]
       ''data/consent_data.csv''
       [''data/consent_data.csv'' \<mapsto> [[PStr ''timestamp'', PStr ''consent_given''], [PStr ''t0'', PBool True]]]
       ''data/consent_data.csv''
     = Some [[PStr ''timestamp'', PStr ''consent_given''], [PStr ''t0'', PBool True],
             [PStr ''t1'', PInt 4, PInt 2]] \<and>
   \<not> rectangular [[PStr ''timestamp'', PStr ''consent_given''], [PStr ''t0'', PBool True],
             [PStr ''t1'', PInt 4, PInt 2]]"
  using append_ignores_header
          [of "[''data/consent_data.csv'' \<mapsto> [[PStr ''timestamp'', PStr ''consent_given''], [PStr ''t0'', PBool True]]]"
              "''data/consent_data.csv''" "[PStr ''timestamp'', PStr ''consent_given'']"
              "[[PStr ''t0'', PBool True]]"
              "[(''timestamp'', PStr ''t1''), (''satisfaction'', PInt 4), (''difficulty'', PInt 2)]"]
  by (simp add: keys_def vals_def)

section \<open>Properties of the forms\<close>

subsection \<open>The four files are four different paths\<close>

lemma csv_paths:
  "CONSENT_CSV = ''data/consent_data.csv''"
  "DEMOGRAPHIC_CSV = ''data/demographic_data.csv''"
  "TASK_CSV = ''data/task_data.csv''"
  "EXIT_CSV = ''data/exit_data.csv''"
  by (simp_all add: CONSENT_CSV_def DEMOGRAPHIC_CSV_def TASK_CSV_def EXIT_CSV_def
        path_join_def DATA_FOLDER_def)

lemma csv_paths_distinct:
  "CONSENT_CSV \<noteq> DEMOGRAPHIC_CSV" "CONSENT_CSV \<noteq> TASK_CSV" "CONSENT_CSV \<noteq> EXIT_CSV"
  "DEMOGRAPHIC_CSV \<noteq> CONSENT_CSV" "DEMOGRAPHIC_CSV \<noteq> TASK_CSV" "DEMOGRAPHIC_CSV \<noteq> EXIT_CSV"
  "TASK_CSV \<noteq> CONSENT_CSV" "TASK_CSV \<noteq> DEMOGRAPHIC_CSV" "TASK_CSV \<noteq> EXIT_CSV"
  "EXIT_CSV \<noteq> CONSENT_CSV" "EXIT_CSV \<noteq> DEMOGRAPHIC_CSV" "EXIT_CSV \<noteq> TASK_CSV"
  by (simp_all add: csv_paths)

subsection \<open>What showing and saving change\<close>

lemma st_simps [simp]:
  "files (st x s) = files s"
  "session (st x s) = session s"
  "shown (st x s) = shown s @ [x]"
  by (simp_all add: st_def)

lemma save_simps [simp]:
  "files (save d p s) = save_to_csv d p (files s)"
  "session (save d p s) = session s"
  "shown (save d p s) = shown s"
  by (simp_all add: save_def)

lemma data_rows_save:
  "fs p \<noteq> Some [] \<Longrightarrow> data_rows p (save_to_csv d p fs) = data_rows p fs @ [vals d]"
  by (cases "fs p") (simp_all add: save_to_csv_new save_to_csv_old data_rows_def)

lemma save_to_csv_at:
  "save_to_csv d p fs p =
     Some (case fs p of None \<Rightarrow> [keys d, vals d] | Some old \<Rightarrow> old @ [vals d])"
  by (cases "fs p") (simp_all add: save_to_csv_new save_to_csv_old)

lemma save_to_csv_changes:
  "save_to_csv d p fs p \<noteq> fs p"
  by (cases "fs p") (simp_all add: save_to_csv_new save_to_csv_old)

subsection \<open>Each form writes its own file only, and only adds to the page\<close>

lemma consent_tab_files:
  "files (consent_tab i s) =
     (if submit_consent i \<and> consent_given i
      then save_to_csv [(''timestamp'', PStr (now_text i)), (''consent_given'', PBool True)]
             CONSENT_CSV (files s)
      else files s)"
  by (simp add: consent_tab_def)

lemma consent_tab_shown: "prefix (shown s) (shown (consent_tab i s))"
  by (simp add: consent_tab_def)

lemma demographics_tab_files:
  "files (demographics_tab i s) =
     (if submitted i \<and> \<not> age i < 18 \<and> occupation i \<noteq> ''''
      then save_to_csv [(''timestamp'', PStr (now_text i)), (''name'', PStr (name i)),
                        (''age'', PInt (age i)), (''occupation'', PStr (occupation i)),
                        (''familiarity'', PStr (familiarity i))]
             DEMOGRAPHIC_CSV (files s)
      else files s)"
  by (simp add: demographics_tab_def)

lemma demographics_tab_shown: "prefix (shown s) (shown (demographics_tab i s))"
  by (simp add: demographics_tab_def)

lemma start_timer_simps [simp]:
  "files (start_timer i s) = files s"
  "task_duration (session (start_timer i s)) = task_duration (session s)"
  by (simp_all add: start_timer_def)

lemma start_timer_shown: "prefix (shown s) (shown (start_timer i s))"
  by (simp add: start_timer_def)

lemma stop_timer_files [simp]: "files (stop_timer i s) = files s"
  by (simp add: stop_timer_def Let_def split: option.splits)

lemma stop_timer_shown: "prefix (shown s) (shown (stop_timer i s))"
  by (simp add: stop_timer_def Let_def split: option.splits)

lemma save_task_results_files:
  "files (save_task_results i s) =
     (if save_task i
      then save_to_csv
             [(''timestamp'', PStr (now_text i)),
              (''task_name'', PStr (selected_task i)),
              (''success'', PStr (success i)),
              (''duration_seconds'', duration_cell (task_duration (session s))),
              (''bug'', if bugs i then PStr (traceback i) else PStr ''''),
              (''bug_description'', if bugs i then PStr (bug_desc i) else PStr ''''),
              (''bug_impact'', if bugs i then PInt (bug_imp i) else PStr ''''),
              (''notes'', PStr (notes_text i))]
             TASK_CSV (files s)
      else files s)"
  by (simp add: save_task_results_def Let_def)

lemma save_task_results_shown: "prefix (shown s) (shown (save_task_results i s))"
  by (simp add: save_task_results_def Let_def)

lemma tasks_tab_other: "q \<noteq> TASK_CSV \<Longrightarrow> files (tasks_tab i s) q = files s q"
  by (simp add: tasks_tab_def save_task_results_files save_to_csv_other)

lemma tasks_tab_shown: "prefix (shown s) (shown (tasks_tab i s))"
  unfolding tasks_tab_def
  by (meson prefix_order.trans start_timer_shown stop_timer_shown save_task_results_shown)

lemma exit_tab_files:
  "files (result_state (exit_tab i s)) =
     (if submitted_exit i
      then save_to_csv [(''timestamp'', PStr (now_text i)), (''satisfaction'', PInt (satisfaction i)),
                        (''difficulty'', PInt (difficulty i)), (''open_feedback'', PStr (open_feedback i))]
             EXIT_CSV (files s)
      else files s)"
  by (simp add: exit_tab_def Let_def split: option.splits)

lemma exit_tab_shown: "prefix (shown s) (shown (result_state (exit_tab i s)))"
  by (simp add: exit_tab_def Let_def split: option.splits)

lemma exit_averages_files [simp]: "files (result_state (exit_averages df s)) = files s"
  by (simp add: exit_averages_def Let_def split: sum.splits)

lemma exit_averages_shown: "prefix (shown s) (shown (result_state (exit_averages df s)))"
  by (simp add: exit_averages_def Let_def prefix_def split: sum.splits)

lemma show_table_simps [simp]:
  "files (show_table df none_yet s) = files s"
  "session (show_table df none_yet s) = session s"
  by (simp_all add: show_table_def)

lemma show_table_shown: "prefix (shown s) (shown (show_table df none_yet s))"
  by (simp add: show_table_def)

lemma report_tab_files [simp]: "files (result_state (report_tab s)) = files s"
  by (simp add: report_tab_def Let_def split: sum.splits)

lemma report_tab_shown: "prefix (shown s) (shown (result_state (report_tab s)))"
proof -
  have one: "prefix xs (shown (st x t))" if "prefix xs (shown t)" for xs x t
    using that by (simp add: prefix_def) auto
  have tab: "prefix xs (shown (show_table df n t))" if "prefix xs (shown t)" for xs df n t
    using that show_table_shown prefix_order.trans by blast
  have avg: "prefix xs (shown (result_state (exit_averages df t)))" if "prefix xs (shown t)" for xs df t
    using that exit_averages_shown prefix_order.trans by blast
  show ?thesis
    unfolding report_tab_def Let_def
    by (auto split: sum.splits simp del: st_simps intro!: one tab avg)
qed

lemma and_then_files:
  "(\<And>t. files (result_state (f t)) = files t) \<Longrightarrow>
     files (result_state (and_then r f)) = files (result_state r)"
  by (cases r) simp_all

lemma and_then_shown:
  "(\<And>t. prefix (shown t) (shown (result_state (f t)))) \<Longrightarrow>
     prefix (shown (result_state r)) (shown (result_state (and_then r f)))"
  by (cases r) simp_all

subsection \<open>One run, file by file\<close>

lemma main_files:
  "files (result_state (main i s)) =
     files (result_state (exit_tab i (tasks_tab i (demographics_tab i (consent_tab i (s\<lparr>shown := []\<rparr>))))))"
  by (simp add: main_def and_then_files)

lemma main_consent_file:
  "files (result_state (main i s)) CONSENT_CSV = files (consent_tab i s) CONSENT_CSV"
  by (simp add: main_files exit_tab_files save_to_csv_other tasks_tab_other
        demographics_tab_files consent_tab_files csv_paths_distinct)

lemma main_demographic_file:
  "files (result_state (main i s)) DEMOGRAPHIC_CSV = files (demographics_tab i s) DEMOGRAPHIC_CSV"
  by (simp add: main_files exit_tab_files save_to_csv_other tasks_tab_other
        demographics_tab_files consent_tab_files csv_paths_distinct save_to_csv_at)

lemma main_shown_consent:
  "set (shown (consent_tab i (s\<lparr>shown := []\<rparr>))) \<subseteq> set (shown (result_state (main i s)))"
proof -
  let ?c = "consent_tab i (s\<lparr>shown := []\<rparr>)"
  let ?e = "exit_tab i (tasks_tab i (demographics_tab i ?c))"
  have "prefix (shown ?c) (shown (result_state ?e))"
    by (meson prefix_order.trans demographics_tab_shown tasks_tab_shown exit_tab_shown)
  moreover have "prefix (shown (result_state ?e)) (shown (result_state (main i s)))"
    unfolding main_def by (rule and_then_shown) (rule report_tab_shown)
  ultimately show ?thesis
    by (meson prefix_order.trans set_mono_prefix)
qed

lemma main_shown_demographics:
  "set (shown (demographics_tab i t)) \<subseteq> set (shown (result_state (main i s)))"
  if "t = consent_tab i (s\<lparr>shown := []\<rparr>)"
proof -
  let ?d = "demographics_tab i t"
  let ?e = "exit_tab i (tasks_tab i ?d)"
  have "prefix (shown ?d) (shown (result_state ?e))"
    by (meson prefix_order.trans tasks_tab_shown exit_tab_shown)
  moreover have "prefix (shown (result_state ?e)) (shown (result_state (main i s)))"
    unfolding main_def that by (rule and_then_shown) (rule report_tab_shown)
  ultimately show ?thesis
    by (meson prefix_order.trans set_mono_prefix)
qed

subsection \<open>Every file the script leaves behind starts with a header line\<close>

text \<open>
  The statements on row counts below are made for a file that is absent or has at least
  one line. The script keeps every path in that condition, so it holds throughout when
  it holds at the start, as it does with no file at all.
\<close>

lemma save_to_csv_keeps_header:
  "fs p \<noteq> Some [] \<Longrightarrow> save_to_csv d q fs p \<noteq> Some []"
  by (cases "p = q") (simp_all add: save_to_csv_not_empty save_to_csv_other)

lemma main_keeps_header:
  "files s p \<noteq> Some [] \<Longrightarrow> files (result_state (main i s)) p \<noteq> Some []"
  by (simp add: main_files exit_tab_files tasks_tab_def save_task_results_files
        demographics_tab_files consent_tab_files save_to_csv_keeps_header)

lemma runs_keep_header:
  "files s p \<noteq> Some [] \<Longrightarrow> files (runs js s) p \<noteq> Some []"
proof (induction js arbitrary: s)
  case Nil
  then show ?case by simp
next
  case (Cons j js)
  from Cons.prems have "files (result_state (main j s)) p \<noteq> Some []"
    by (rule main_keeps_header)
  then show ?case
    using Cons.IH by simp
qed

lemma runs_from_initial_keep_header: "files (runs js initial) p \<noteq> Some []"
  by (rule runs_keep_header) (simp add: initial_def)

subsection \<open>Consent\<close>

text \<open>
  C1. A run in which the consent button is pressed writes to the consent file exactly
  when the check box is ticked. With the box ticked the file gains exactly one row (the
  time and \<open>True\<close>): its row count goes up by one, also when the file is created by
  this very submission. With the box not ticked the warning is shown and the file is
  what it was. (The consent file is taken to be absent or to start with a header line,
  as every file the program has written does.)
\<close>

theorem consent_submission:
  "submit_consent i \<Longrightarrow> files s CONSENT_CSV \<noteq> Some [] \<Longrightarrow>
     (consent_given i \<longrightarrow>
        data_rows CONSENT_CSV (files (result_state (main i s)))
          = data_rows CONSENT_CSV (files s) @ [[PStr (now_text i), PBool True]] \<and>
        row_count CONSENT_CSV (files (result_state (main i s)))
          = row_count CONSENT_CSV (files s) + 1) \<and>
     (\<not> consent_given i \<longrightarrow>
        Warning ''You must agree to the consent terms before proceeding.''
          \<in> set (shown (result_state (main i s))) \<and>
        files (result_state (main i s)) CONSENT_CSV = files s CONSENT_CSV \<and>
        row_count CONSENT_CSV (files (result_state (main i s)))
          = row_count CONSENT_CSV (files s))"
proof (intro conjI impI)
  assume pressed: "submit_consent i" and ok: "files s CONSENT_CSV \<noteq> Some []"
  {
    assume "consent_given i"
    with pressed have after: "data_rows CONSENT_CSV (files (result_state (main i s)))
        = data_rows CONSENT_CSV
            (save_to_csv [(''timestamp'', PStr (now_text i)), (''consent_given'', PBool True)]
               CONSENT_CSV (files s))"
      by (simp add: data_rows_def main_consent_file consent_tab_files)
    with ok show "data_rows CONSENT_CSV (files (result_state (main i s)))
        = data_rows CONSENT_CSV (files s) @ [[PStr (now_text i), PBool True]]"
      by (simp add: data_rows_save vals_def)
    then show "row_count CONSENT_CSV (files (result_state (main i s)))
        = row_count CONSENT_CSV (files s) + 1"
      by (simp add: row_count_def)
  }
  {
    assume no: "\<not> consent_given i"
    with pressed have "Warning ''You must agree to the consent terms before proceeding.''
        \<in> set (shown (consent_tab i (s\<lparr>shown := []\<rparr>)))"
      by (simp add: consent_tab_def)
    then show "Warning ''You must agree to the consent terms before proceeding.''
        \<in> set (shown (result_state (main i s)))"
      using main_shown_consent by blast
    from no show same: "files (result_state (main i s)) CONSENT_CSV = files s CONSENT_CSV"
      by (simp add: main_consent_file consent_tab_files)
    then show "row_count CONSENT_CSV (files (result_state (main i s)))
        = row_count CONSENT_CSV (files s)"
      by (simp add: row_count_def data_rows_def)
  }
qed

theorem consent_submission_witness:
  "submit_consent (idle\<lparr>submit_consent := True, consent_given := True\<rparr>) \<and>
   files initial CONSENT_CSV \<noteq> Some [] \<and>
   consent_given (idle\<lparr>submit_consent := True, consent_given := True\<rparr>) \<and>
   data_rows CONSENT_CSV
       (files (result_state (main (idle\<lparr>submit_consent := True, consent_given := True\<rparr>) initial)))
     = [[PStr ''2024-05-01 10:00:00'', PBool True]] \<and>
   row_count CONSENT_CSV
       (files (result_state (main (idle\<lparr>submit_consent := True, consent_given := True\<rparr>) initial)))
     = 1 \<and>
   submit_consent (idle\<lparr>submit_consent := True\<rparr>) \<and>
   \<not> consent_given (idle\<lparr>submit_consent := True\<rparr>) \<and>
   Warning ''You must agree to the consent terms before proceeding.''
     \<in> set (shown (result_state (main (idle\<lparr>submit_consent := True\<rparr>) initial))) \<and>
   files (result_state (main (idle\<lparr>submit_consent := True\<rparr>) initial)) CONSENT_CSV = None"
  using consent_submission [of "idle\<lparr>submit_consent := True, consent_given := True\<rparr>" initial]
        consent_submission [of "idle\<lparr>submit_consent := True\<rparr>" initial]
  by (simp add: idle_def initial_def row_count_def data_rows_def)

subsection \<open>Demographics\<close>

text \<open>
  C2. A run in which the demographic form is submitted leaves the demographic file as
  it was if and only if the age is below 18 or the occupation is empty. An age below 18
  is answered with the age warning whatever the other fields hold; an empty occupation
  (with an age of 18 or more) with the occupation warning; and with an age of at least
  18 and an occupation that is not empty the file gains exactly one row, made of the time
  and the four fields.
\<close>

theorem demographic_submission:
  "submitted i \<Longrightarrow> files s DEMOGRAPHIC_CSV \<noteq> Some [] \<Longrightarrow>
     ((files (result_state (main i s)) DEMOGRAPHIC_CSV = files s DEMOGRAPHIC_CSV)
        = (age i < 18 \<or> occupation i = '''')) \<and>
     (age i < 18 \<longrightarrow>
        Warning ''You must be 18 or older to fill this form out.''
          \<in> set (shown (result_state (main i s)))) \<and>
     (18 \<le> age i \<and> occupation i = '''' \<longrightarrow>
        Warning ''Please fill out the occupation field.''
          \<in> set (shown (result_state (main i s)))) \<and>
     (18 \<le> age i \<and> occupation i \<noteq> '''' \<longrightarrow>
        data_rows DEMOGRAPHIC_CSV (files (result_state (main i s)))
          = data_rows DEMOGRAPHIC_CSV (files s)
              @ [[PStr (now_text i), PStr (name i), PInt (age i), PStr (occupation i),
                  PStr (familiarity i)]] \<and>
        row_count DEMOGRAPHIC_CSV (files (result_state (main i s)))
          = row_count DEMOGRAPHIC_CSV (files s) + 1 \<and>
        Success ''Demographic data saved.'' \<in> set (shown (result_state (main i s))))"
proof (intro conjI impI)
  assume sub: "submitted i" and ok: "files s DEMOGRAPHIC_CSV \<noteq> Some []"
  let ?c = "consent_tab i (s\<lparr>shown := []\<rparr>)"
  have page: "x \<in> set (shown (demographics_tab i ?c)) \<Longrightarrow>
      x \<in> set (shown (result_state (main i s)))" for x
    using main_shown_demographics [of ?c i s] by blast
  from sub show "(files (result_state (main i s)) DEMOGRAPHIC_CSV = files s DEMOGRAPHIC_CSV)
      = (age i < 18 \<or> occupation i = '''')"
    by (auto simp add: main_demographic_file demographics_tab_files save_to_csv_changes)
  {
    assume "age i < 18"
    with sub have "Warning ''You must be 18 or older to fill this form out.''
        \<in> set (shown (demographics_tab i ?c))"
      by (simp add: demographics_tab_def)
    then show "Warning ''You must be 18 or older to fill this form out.''
        \<in> set (shown (result_state (main i s)))"
      by (rule page)
  }
  {
    assume "18 \<le> age i \<and> occupation i = ''''"
    with sub have "Warning ''Please fill out the occupation field.''
        \<in> set (shown (demographics_tab i ?c))"
      by (simp add: demographics_tab_def)
    then show "Warning ''Please fill out the occupation field.''
        \<in> set (shown (result_state (main i s)))"
      by (rule page)
  }
  {
    assume good: "18 \<le> age i \<and> occupation i \<noteq> ''''"
    with sub have "data_rows DEMOGRAPHIC_CSV (files (result_state (main i s)))
        = data_rows DEMOGRAPHIC_CSV
            (save_to_csv [(''timestamp'', PStr (now_text i)), (''name'', PStr (name i)),
                          (''age'', PInt (age i)), (''occupation'', PStr (occupation i)),
                          (''familiarity'', PStr (familiarity i))]
               DEMOGRAPHIC_CSV (files s))"
      by (simp add: data_rows_def main_demographic_file demographics_tab_files)
    with ok show rows: "data_rows DEMOGRAPHIC_CSV (files (result_state (main i s)))
        = data_rows DEMOGRAPHIC_CSV (files s)
            @ [[PStr (now_text i), PStr (name i), PInt (age i), PStr (occupation i),
                PStr (familiarity i)]]"
      by (simp add: data_rows_save vals_def)
    then show "row_count DEMOGRAPHIC_CSV (files (result_state (main i s)))
        = row_count DEMOGRAPHIC_CSV (files s) + 1"
      by (simp add: row_count_def)
    from sub good have "Success ''Demographic data saved.'' \<in> set (shown (demographics_tab i ?c))"
      by (simp add: demographics_tab_def)
    then show "Success ''Demographic data saved.'' \<in> set (shown (result_state (main i s)))"
      by (rule page)
  }
qed

theorem demographic_submission_witness:
  "submitted (idle\<lparr>submitted := True, age := 17, occupation := ''student''\<rparr>) \<and>
   files initial DEMOGRAPHIC_CSV \<noteq> Some [] \<and>
   files (result_state (main (idle\<lparr>submitted := True, age := 17, occupation := ''student''\<rparr>) initial))
       DEMOGRAPHIC_CSV = None \<and>
   Warning ''You must be 18 or older to fill this form out.''
     \<in> set (shown (result_state
           (main (idle\<lparr>submitted := True, age := 17, occupation := ''student''\<rparr>) initial))) \<and>
   Warning ''Please fill out the occupation field.''
     \<in> set (shown (result_state (main (idle\<lparr>submitted := True, age := 18\<rparr>) initial))) \<and>
   data_rows DEMOGRAPHIC_CSV
       (files (result_state
          (main (idle\<lparr>submitted := True, age := 18, occupation := ''student''\<rparr>) initial)))
     = [[PStr ''2024-05-01 10:00:00'', PStr '''', PInt 18, PStr ''student'', PStr ''Not Familiar'']] \<and>
   row_count DEMOGRAPHIC_CSV
       (files (result_state
          (main (idle\<lparr>submitted := True, age := 18, occupation := ''student''\<rparr>) initial)))
     = 1"
  using demographic_submission
          [of "idle\<lparr>submitted := True, age := 17, occupation := ''student''\<rparr>" initial]
        demographic_submission [of "idle\<lparr>submitted := True, age := 18\<rparr>" initial]
        demographic_submission
          [of "idle\<lparr>submitted := True, age := 18, occupation := ''student''\<rparr>" initial]
  by (simp add: idle_def initial_def row_count_def data_rows_def)

subsection \<open>Task\<close>

lemma consent_tab_session [simp]: "session (consent_tab i s) = session s"
  by (simp add: consent_tab_def)

lemma demographics_tab_session [simp]: "session (demographics_tab i s) = session s"
  by (simp add: demographics_tab_def)

lemma timer_session:
  "session t = session s \<Longrightarrow>
     session (stop_timer i (start_timer i t)) = session (stop_timer i (start_timer i s))"
  by (simp add: stop_timer_def start_timer_def Let_def split: option.splits)

lemma main_task_file:
  "files (result_state (main i s)) TASK_CSV
     = files (save_task_results i (stop_timer i (start_timer i s))) TASK_CSV"
proof -
  let ?t = "demographics_tab i (consent_tab i (s\<lparr>shown := []\<rparr>))"
  have "session ?t = session s"
    by simp
  then have timer: "session (stop_timer i (start_timer i ?t)) = session (stop_timer i (start_timer i s))"
    by (rule timer_session)
  have same: "files ?t TASK_CSV = files s TASK_CSV"
    by (simp add: demographics_tab_files consent_tab_files save_to_csv_other csv_paths_distinct)
  have "files (result_state (main i s)) TASK_CSV = files (tasks_tab i ?t) TASK_CSV"
    by (simp add: main_files exit_tab_files save_to_csv_other csv_paths_distinct)
  also have "\<dots> = files (save_task_results i (stop_timer i (start_timer i s))) TASK_CSV"
    by (simp add: tasks_tab_def save_task_results_files save_to_csv_at timer same)
  finally show ?thesis .
qed

lemma task_file_after:
  "files (save_task_results i t) TASK_CSV =
     (if save_task i
      then Some ((case files t TASK_CSV of
                    None \<Rightarrow> [[PStr ''timestamp'', PStr ''task_name'', PStr ''success'',
                               PStr ''duration_seconds'', PStr ''bug'', PStr ''bug_description'',
                               PStr ''bug_impact'', PStr ''notes'']]
                  | Some old \<Rightarrow> old)
                 @ [[PStr (now_text i), PStr (selected_task i), PStr (success i),
                     duration_cell (task_duration (session t)),
                     if bugs i then PStr (traceback i) else PStr '''',
                     if bugs i then PStr (bug_desc i) else PStr '''',
                     if bugs i then PInt (bug_imp i) else PStr '''',
                     PStr (notes_text i)]])
      else files t TASK_CSV)"
  by (simp add: save_task_results_files save_to_csv_at keys_def vals_def split: option.splits)

lemma timer_never_used:
  "task_duration
     (session (stop_timer (i\<lparr>start_button := False, stop_button := False\<rparr>)
        (start_timer (i\<lparr>start_button := False, stop_button := False\<rparr>)
           (s\<lparr>session := \<lparr>start_time = None, task_duration = None\<rparr>\<rparr>)))) = None"
  by (simp add: start_timer_def stop_timer_def)

text \<open>
  C8. The task file changes only in a run in which the save button is pressed, and
  then by one line added at its end: the record of the task. In that record the three
  fields of the bug report hold what was entered (traceback, description, rating) when
  the bug check box is ticked, and the empty text when it is not.
\<close>

theorem task_bug_fields:
  "(save_task i \<longrightarrow>
      (\<exists>before d. files (result_state (main i s)) TASK_CSV = Some (before @ [d]) \<and>
         (\<forall>old. files s TASK_CSV = Some old \<longrightarrow> before = old) \<and>
         length d = 8 \<and>
         (bugs i \<longrightarrow>
            d ! 4 = PStr (traceback i) \<and> d ! 5 = PStr (bug_desc i) \<and> d ! 6 = PInt (bug_imp i)) \<and>
         (\<not> bugs i \<longrightarrow>
            d ! 4 = PStr '''' \<and> d ! 5 = PStr '''' \<and> d ! 6 = PStr ''''))) \<and>
   (\<not> save_task i \<longrightarrow> files (result_state (main i s)) TASK_CSV = files s TASK_CSV)"
  by (cases "files s TASK_CSV") (simp_all add: main_task_file task_file_after)

theorem task_bug_fields_witness:
  "save_task (idle\<lparr>save_task := True, bugs := True, traceback := ''KeyError: 7'',
                    bug_desc := ''pressed Add twice'', bug_imp := 4\<rparr>) \<and>
   bugs (idle\<lparr>save_task := True, bugs := True, traceback := ''KeyError: 7'',
               bug_desc := ''pressed Add twice'', bug_imp := 4\<rparr>) \<and>
   (\<exists>before d. files (result_state
          (main (idle\<lparr>save_task := True, bugs := True, traceback := ''KeyError: 7'',
                        bug_desc := ''pressed Add twice'', bug_imp := 4\<rparr>) initial)) TASK_CSV
        = Some (before @ [d]) \<and>
      length d = 8 \<and>
      d ! 4 = PStr ''KeyError: 7'' \<and> d ! 5 = PStr ''pressed Add twice'' \<and> d ! 6 = PInt 4) \<and>
   save_task (idle\<lparr>save_task := True\<rparr>) \<and>
   \<not> bugs (idle\<lparr>save_task := True\<rparr>) \<and>
   (\<exists>before d. files (result_state (main (idle\<lparr>save_task := True\<rparr>) initial)) TASK_CSV
        = Some (before @ [d]) \<and>
      length d = 8 \<and> d ! 4 = PStr '''' \<and> d ! 5 = PStr '''' \<and> d ! 6 = PStr '''') \<and>
   \<not> save_task idle \<and>
   files (result_state (main idle initial)) TASK_CSV = None"
proof -
  let ?bug = "idle\<lparr>save_task := True, bugs := True, traceback := ''KeyError: 7'',
                   bug_desc := ''pressed Add twice'', bug_imp := 4\<rparr>"
  let ?plain = "idle\<lparr>save_task := True\<rparr>"
  have facts:
    "save_task ?bug" "bugs ?bug" "traceback ?bug = ''KeyError: 7''"
    "bug_desc ?bug = ''pressed Add twice''" "bug_imp ?bug = 4"
    "save_task ?plain" "\<not> bugs ?plain" "\<not> save_task idle" "files initial TASK_CSV = None"
    by (simp_all add: idle_def initial_def)
  show ?thesis
    using task_bug_fields [of ?bug initial] task_bug_fields [of ?plain initial]
          task_bug_fields [of idle initial] facts
    by (simp only: simp_thms) blast
qed

text \<open>
  C10. When the duration the session holds at the moment of saving is the float zero,
  the record written to the task file carries the empty text in the field
  \<^verbatim>\<open>duration_seconds\<close>, and the task file comes out exactly as it does when no
  timer was ever used.
\<close>

theorem zero_duration_saved_empty:
  "save_task i \<Longrightarrow> task_duration (session (stop_timer i (start_timer i s))) = Some 0 \<Longrightarrow>
     (\<exists>before d. files (result_state (main i s)) TASK_CSV = Some (before @ [d]) \<and>
        length d = 8 \<and> d ! 3 = PStr '''') \<and>
     files (result_state (main i s)) TASK_CSV
       = files (result_state
           (main (i\<lparr>start_button := False, stop_button := False\<rparr>)
              (s\<lparr>session := \<lparr>start_time = None, task_duration = None\<rparr>\<rparr>))) TASK_CSV"
  by (simp add: main_task_file task_file_after duration_cell_def timer_never_used)

theorem zero_duration_saved_empty_witness:
  "save_task (idle\<lparr>save_task := True\<rparr>) \<and>
   task_duration
       (session (stop_timer (idle\<lparr>save_task := True\<rparr>)
          (start_timer (idle\<lparr>save_task := True\<rparr>)
             (runs [idle\<lparr>start_button := True\<rparr>, idle\<lparr>stop_button := True\<rparr>] initial))))
     = Some 0 \<and>
   (\<exists>before d. files (result_state (main (idle\<lparr>save_task := True\<rparr>)
          (runs [idle\<lparr>start_button := True\<rparr>, idle\<lparr>stop_button := True\<rparr>] initial))) TASK_CSV
        = Some (before @ [d]) \<and>
      length d = 8 \<and> d ! 3 = PStr '''')"
proof -
  have pressed: "save_task (idle\<lparr>save_task := True\<rparr>)"
    by simp
  have zero: "task_duration
       (session (stop_timer (idle\<lparr>save_task := True\<rparr>)
          (start_timer (idle\<lparr>save_task := True\<rparr>)
             (runs [idle\<lparr>start_button := True\<rparr>, idle\<lparr>stop_button := True\<rparr>] initial))))
     = Some 0"
    by code_simp
  from zero_duration_saved_empty [OF pressed zero] pressed zero show ?thesis
    by blast
qed

subsection \<open>The consent file never holds a refusal\<close>

lemma consent_line_ok_iff: "consent_line_ok r \<longleftrightarrow> (\<exists>t. r = [PStr t, PBool True])"
  by (induction r rule: consent_line_ok.induct) auto

lemma consent_file_ok_save:
  "consent_file_ok (fs CONSENT_CSV) \<Longrightarrow>
     consent_file_ok
       (save_to_csv [(''timestamp'', PStr t), (''consent_given'', PBool True)] CONSENT_CSV fs
          CONSENT_CSV)"
  by (cases "fs CONSENT_CSV")
     (auto simp add: save_to_csv_at consent_file_ok_def keys_def vals_def split: list.splits)

lemma main_consent_ok:
  "consent_file_ok (files s CONSENT_CSV) \<Longrightarrow>
     consent_file_ok (files (result_state (main i s)) CONSENT_CSV)"
  by (simp add: main_consent_file consent_tab_files consent_file_ok_save)

lemma runs_consent_ok:
  "consent_file_ok (files s CONSENT_CSV) \<Longrightarrow> consent_file_ok (files (runs js s) CONSENT_CSV)"
proof (induction js arbitrary: s)
  case Nil
  then show ?case by simp
next
  case (Cons j js)
  from Cons.prems have "consent_file_ok (files (result_state (main j s)) CONSENT_CSV)"
    by (rule main_consent_ok)
  then show ?case
    using Cons.IH by simp
qed

lemma consent_lines_not_blank:
  "list_all consent_line_ok rs \<Longrightarrow> filter (\<lambda>l. l \<noteq> []) rs = rs"
  by (induction rs) (auto simp add: consent_line_ok_iff)

lemma consent_lines_column:
  "list_all consent_line_ok rs \<Longrightarrow>
     List.map_filter (\<lambda>r. if Suc 0 < length r then Some (r ! Suc 0) else None) rs
       = map (\<lambda>r. PBool True) rs"
  by (induction rs) (auto simp add: consent_line_ok_iff List.map_filter_simps)

lemma consent_ok_load:
  assumes "consent_file_ok (fs CONSENT_CSV)"
  shows "\<exists>df. load_from_csv CONSENT_CSV fs = Inr df \<and>
           df_rows df = data_rows CONSENT_CSV fs \<and>
           list_all consent_line_ok (df_rows df) \<and>
           (\<forall>cells. column df (PStr ''consent_given'') = Inr cells \<longrightarrow>
              cells = map (\<lambda>r. PBool True) (df_rows df))"
proof (cases "fs CONSENT_CSV")
  case None
  then show ?thesis
    by (simp add: load_from_csv_def isfile_def DataFrame_empty_def data_rows_def column_def)
next
  case (Some ls)
  with assms obtain rs where ls: "ls = [PStr ''timestamp'', PStr ''consent_given''] # rs"
    and rs: "list_all consent_line_ok rs"
    by (auto simp add: consent_file_ok_def split: list.splits)
  have rect: "rectangular ([PStr ''timestamp'', PStr ''consent_given''] # rs)"
    using rs by (auto simp add: rectangular_def list_all_iff consent_line_ok_iff)
  have "load_from_csv CONSENT_CSV fs
      = Inr \<lparr>df_columns = [PStr ''timestamp'', PStr ''consent_given''], df_rows = rs\<rparr>"
    using Some ls rect
    by (simp add: load_from_csv_def isfile_def read_csv_def consent_lines_not_blank [OF rs])
  then show ?thesis
    using Some ls rs by (simp add: data_rows_def column_def consent_lines_column)
qed

text \<open>
  C9. Start from a consent file that is absent, or that holds the consent header and
  rows whose \<^verbatim>\<open>consent_given\<close> is \<open>True\<close>. After any sequence of runs of the
  script, whatever is entered and pressed in them, every row of the consent file is a
  time followed by \<open>True\<close>: \<^verbatim>\<open>load_from_csv\<close> returns the rows of the file, and
  its column \<^verbatim>\<open>consent_given\<close> holds \<open>True\<close> in every cell and \<open>False\<close> in none.
\<close>

theorem consent_file_only_true:
  "consent_file_ok (files s CONSENT_CSV) \<Longrightarrow>
     (\<exists>df. load_from_csv CONSENT_CSV (files (runs js s)) = Inr df \<and>
        df_rows df = data_rows CONSENT_CSV (files (runs js s)) \<and>
        (\<forall>r \<in> set (df_rows df). \<exists>t. r = [PStr t, PBool True]) \<and>
        (\<forall>cells. column df (PStr ''consent_given'') = Inr cells \<longrightarrow>
           PBool False \<notin> set cells \<and> (\<forall>c \<in> set cells. c = PBool True)))"
proof -
  assume "consent_file_ok (files s CONSENT_CSV)"
  then have "consent_file_ok (files (runs js s) CONSENT_CSV)"
    by (rule runs_consent_ok)
  from consent_ok_load [of "files (runs js s)", OF this] obtain df where
    df: "load_from_csv CONSENT_CSV (files (runs js s)) = Inr df"
      "df_rows df = data_rows CONSENT_CSV (files (runs js s))"
      "list_all consent_line_ok (df_rows df)"
      "\<forall>cells. column df (PStr ''consent_given'') = Inr cells \<longrightarrow>
         cells = map (\<lambda>r. PBool True) (df_rows df)"
    by blast
  from df(3) have "\<forall>r \<in> set (df_rows df). \<exists>t. r = [PStr t, PBool True]"
    by (simp add: list_all_iff consent_line_ok_iff)
  moreover from df(4) have "\<forall>cells. column df (PStr ''consent_given'') = Inr cells \<longrightarrow>
      PBool False \<notin> set cells \<and> (\<forall>c \<in> set cells. c = PBool True)"
    by auto
  ultimately show ?thesis
    using df(1,2) by blast
qed

theorem consent_file_only_true_witness:
  "consent_file_ok (files initial CONSENT_CSV) \<and>
   data_rows CONSENT_CSV
       (files (runs [idle\<lparr>submit_consent := True, consent_given := True\<rparr>,
                     idle\<lparr>submit_consent := True, now_text := ''2024-05-01 10:00:07''\<rparr>,
                     idle\<lparr>submit_consent := True, consent_given := True,
                          now_text := ''2024-05-01 10:00:09''\<rparr>] initial))
     = [[PStr ''2024-05-01 10:00:00'', PBool True], [PStr ''2024-05-01 10:00:09'', PBool True]] \<and>
   (\<exists>df. load_from_csv CONSENT_CSV
        (files (runs [idle\<lparr>submit_consent := True, consent_given := True\<rparr>,
                      idle\<lparr>submit_consent := True, now_text := ''2024-05-01 10:00:07''\<rparr>,
                      idle\<lparr>submit_consent := True, consent_given := True,
                           now_text := ''2024-05-01 10:00:09''\<rparr>] initial)) = Inr df \<and>
      df_rows df = [[PStr ''2024-05-01 10:00:00'', PBool True], [PStr ''2024-05-01 10:00:09'', PBool True]] \<and>
      (\<forall>cells. column df (PStr ''consent_given'') = Inr cells \<longrightarrow> PBool False \<notin> set cells))"
proof -
  let ?js = "[idle\<lparr>submit_consent := True, consent_given := True\<rparr>,
              idle\<lparr>submit_consent := True, now_text := ''2024-05-01 10:00:07''\<rparr>,
              idle\<lparr>submit_consent := True, consent_given := True,
                   now_text := ''2024-05-01 10:00:09''\<rparr>]"
  have start: "consent_file_ok (files initial CONSENT_CSV)"
    by (simp add: initial_def consent_file_ok_def)
  have rows: "data_rows CONSENT_CSV (files (runs ?js initial))
      = [[PStr ''2024-05-01 10:00:00'', PBool True], [PStr ''2024-05-01 10:00:09'', PBool True]]"
    by code_simp
  from consent_file_only_true [OF start, of ?js] start rows show ?thesis
    by (simp only: simp_thms) metis
qed

subsection \<open>Report\<close>

text \<open>No form shows an average; only the report can.\<close>

lemma averages_st: "filter is_average (shown (st x s)) = filter is_average (shown s) @ filter is_average [x]"
  by simp

lemma averages_consent_tab:
  "filter is_average (shown (consent_tab i s)) = filter is_average (shown s)"
  by (simp add: consent_tab_def)

lemma averages_demographics_tab:
  "filter is_average (shown (demographics_tab i s)) = filter is_average (shown s)"
  by (simp add: demographics_tab_def)

lemma averages_tasks_tab:
  "filter is_average (shown (tasks_tab i s)) = filter is_average (shown s)"
  by (simp add: tasks_tab_def save_task_results_def stop_timer_def start_timer_def Let_def
        split: option.splits)

lemma averages_exit_tab:
  "filter is_average (shown (result_state (exit_tab i s))) = filter is_average (shown s)"
  by (simp add: exit_tab_def Let_def split: option.splits)

lemma averages_show_table:
  "filter is_average (shown (show_table df none_yet s)) = filter is_average (shown s)"
  by (simp add: show_table_def)

lemma averages_before_report:
  "filter is_average
     (shown (result_state (exit_tab i (tasks_tab i (demographics_tab i (consent_tab i (s\<lparr>shown := []\<rparr>)))))))
     = []"
  by (simp add: averages_exit_tab averages_tasks_tab averages_demographics_tab averages_consent_tab)

text \<open>The exit file as a table, its two columns of numbers and their means.\<close>

lemma exit_lines_not_blank: "filter (\<lambda>l. l \<noteq> []) (map exit_line as) = map exit_line as"
  by (induction as) (simp_all add: exit_line_def)

lemma exit_lines_rectangular: "rectangular (exit_header # map exit_line as)"
  by (simp add: rectangular_def exit_header_def exit_line_def list_all_iff)

lemma load_exit_file:
  "fs EXIT_CSV = Some (exit_header # map exit_line as) \<Longrightarrow>
     load_from_csv EXIT_CSV fs = Inr \<lparr>df_columns = exit_header, df_rows = map exit_line as\<rparr>"
  using exit_lines_rectangular [of as]
  by (simp add: load_from_csv_def isfile_def read_csv_def exit_lines_not_blank)
     (simp add: exit_header_def)

lemma column_satisfaction:
  "column \<lparr>df_columns = exit_header, df_rows = map exit_line as\<rparr> (PStr ''satisfaction'')
     = Inr (map (\<lambda>a. PInt (satisfied a)) as)"
  by (induction as)
     (simp_all add: column_def exit_header_def exit_line_def List.map_filter_simps)

lemma column_difficulty:
  "column \<lparr>df_columns = exit_header, df_rows = map exit_line as\<rparr> (PStr ''difficulty'')
     = Inr (map (\<lambda>a. PInt (difficult a)) as)"
  by (induction as)
     (simp_all add: column_def exit_header_def exit_line_def List.map_filter_simps)

lemma numbers_ints: "numbers (map PInt ns) = Some (map of_int ns)"
  by (induction ns) simp_all

lemma sum_list_of_int: "sum_list (map of_int ns) = (of_int (sum_list ns) :: rat)"
  by (induction ns) simp_all

lemma mean_ints:
  "ns \<noteq> [] \<Longrightarrow> mean (map PInt ns) = Inr (Some (float_mean ns))"
proof -
  assume "ns \<noteq> []"
  then obtain n rest where ns: "ns = n # rest"
    by (cases ns) auto
  have "sum_list (map of_int (n # rest)) = (of_int (sum_list (n # rest)) :: rat)"
    by (rule sum_list_of_int)
  then show ?thesis
    unfolding ns mean_def float_mean_def numbers_ints
    by (simp add: add.commute)
qed

lemma exit_averages_of_file:
  "exit_averages \<lparr>df_columns = exit_header, df_rows = map exit_line as\<rparr> s =
     (if as = [] then Done s
      else Done (st (Write (''**Average Difficulty**: '' @ format_2f (float_mean (map difficult as))))
                  (st (Write (''**Average Satisfaction**: '' @ format_2f (float_mean (map satisfied as))))
                    (st (Subheader ''Exit Questionnaire Averages'') s))))"
proof (cases "as = []")
  case True
  then show ?thesis
    by (simp add: exit_averages_def empty_df_def)
next
  case False
  have sat: "mean (map (\<lambda>a. PInt (satisfied a)) as) = Inr (Some (float_mean (map satisfied as)))"
    using mean_ints [of "map satisfied as"] False by (simp add: comp_def)
  have dif: "mean (map (\<lambda>a. PInt (difficult a)) as) = Inr (Some (float_mean (map difficult as)))"
    using mean_ints [of "map difficult as"] False by (simp add: comp_def)
  from False show ?thesis
    by (simp add: exit_averages_def empty_df_def exit_header_def [symmetric]
          column_satisfaction column_difficulty sat dif format_2f_nan_def Let_def)
       (simp add: exit_header_def)
qed

lemma averages_exit_averages:
  "filter is_average
     (shown (result_state (exit_averages \<lparr>df_columns = exit_header, df_rows = map exit_line as\<rparr> s)))
     = filter is_average (shown s) @
       (if as = [] then []
        else [Write (''**Average Satisfaction**: '' @ format_2f (float_mean (map satisfied as))),
              Write (''**Average Difficulty**: '' @ format_2f (float_mean (map difficult as)))])"
  by (simp add: exit_averages_of_file)

lemma averages_no_exit_file:
  "files s EXIT_CSV = None \<Longrightarrow>
     filter is_average (shown (result_state (report_tab s))) = filter is_average (shown s)"
  by (simp add: report_tab_def Let_def averages_show_table load_from_csv_def isfile_def
        exit_averages_def empty_df_def DataFrame_empty_def
        split: sum.splits)

lemma averages_report_tab:
  "raised (report_tab s) = None \<Longrightarrow>
   files s EXIT_CSV = Some (exit_header # map exit_line as) \<Longrightarrow>
     filter is_average (shown (result_state (report_tab s)))
     = filter is_average (shown s) @
       (if as = [] then []
        else [Write (''**Average Satisfaction**: '' @ format_2f (float_mean (map satisfied as))),
              Write (''**Average Difficulty**: '' @ format_2f (float_mean (map difficult as)))])"
proof -
  assume ok: "raised (report_tab s) = None"
    and exit_file: "files s EXIT_CSV = Some (exit_header # map exit_line as)"
  have exit_df: "load_from_csv EXIT_CSV (files s)
      = Inr \<lparr>df_columns = exit_header, df_rows = map exit_line as\<rparr>"
    using exit_file by (rule load_exit_file)
  from ok obtain c d t where loads:
    "load_from_csv CONSENT_CSV (files s) = Inr c"
    "load_from_csv DEMOGRAPHIC_CSV (files s) = Inr d"
    "load_from_csv TASK_CSV (files s) = Inr t"
    by (auto simp add: report_tab_def Let_def split: sum.splits)
  show ?thesis
    by (simp add: report_tab_def Let_def loads exit_df averages_exit_averages averages_show_table)
qed

lemma main_Done:
  "raised (main i s) = None \<Longrightarrow>
     \<exists>t. exit_tab i (tasks_tab i (demographics_tab i (consent_tab i (s\<lparr>shown := []\<rparr>)))) = Done t \<and>
         main i s = report_tab t \<and> filter is_average (shown t) = [] \<and>
         files t = files (result_state (main i s))"
proof -
  assume ok: "raised (main i s) = None"
  let ?e = "exit_tab i (tasks_tab i (demographics_tab i (consent_tab i (s\<lparr>shown := []\<rparr>))))"
  from ok obtain t where t: "?e = Done t"
    by (cases ?e) (simp_all add: main_def)
  then have "main i s = report_tab t"
    by (simp add: main_def)
  moreover have "filter is_average (shown t) = []"
    using averages_before_report [of i s] t by simp
  ultimately show ?thesis
    using t by simp
qed

text \<open>
  C5. In a run that ends normally, the lines of the page that show an average are
  these. When the exit file read by the report holds answers, there are exactly two,
  both made by the report from the exit file: the arithmetic mean of its satisfaction
  column and the arithmetic mean of its difficulty column, each the float that the
  division of the sum by the number of answers returns, printed with two decimals.
  When the exit file does not exist or holds no answer, there is none. No other file
  gets an average.
\<close>

theorem report_exit_averages:
  "raised (main i s) = None \<Longrightarrow>
     (files (result_state (main i s)) EXIT_CSV = None \<longrightarrow>
        filter is_average (shown (result_state (main i s))) = []) \<and>
     (\<forall>as. files (result_state (main i s)) EXIT_CSV = Some (exit_header # map exit_line as) \<longrightarrow>
        filter is_average (shown (result_state (main i s))) =
          (if as = [] then []
           else [Write (''**Average Satisfaction**: ''
                          @ format_2f (double_of (of_int (sum_list (map satisfied as))
                                                  / of_nat (length as)))),
                 Write (''**Average Difficulty**: ''
                          @ format_2f (double_of (of_int (sum_list (map difficult as))
                                                  / of_nat (length as))))]))"
proof -
  assume ok: "raised (main i s) = None"
  from main_Done [OF ok] obtain t where t:
    "main i s = report_tab t" "filter is_average (shown t) = []"
    "files t = files (result_state (main i s))"
    by blast
  from ok t(1) have report_ok: "raised (report_tab t) = None"
    by simp
  show ?thesis
  proof (intro conjI allI impI)
    assume "files (result_state (main i s)) EXIT_CSV = None"
    with t(3) have "files t EXIT_CSV = None"
      by simp
    then show "filter is_average (shown (result_state (main i s))) = []"
      using t(1,2) by (simp add: averages_no_exit_file)
  next
    fix as
    assume "files (result_state (main i s)) EXIT_CSV = Some (exit_header # map exit_line as)"
    with t(3) have "files t EXIT_CSV = Some (exit_header # map exit_line as)"
      by simp
    from averages_report_tab [OF report_ok this] t(1,2)
    show "filter is_average (shown (result_state (main i s))) =
          (if as = [] then []
           else [Write (''**Average Satisfaction**: ''
                          @ format_2f (double_of (of_int (sum_list (map satisfied as))
                                                  / of_nat (length as)))),
                 Write (''**Average Difficulty**: ''
                          @ format_2f (double_of (of_int (sum_list (map difficult as))
                                                  / of_nat (length as))))])"
      by (simp add: float_mean_def)
  qed
qed

text \<open>
  Two answers with the satisfactions 4 and 2 (and the difficulties 1 and 2), then the
  report: the averages shown are 3.00 and 1.50.
\<close>

theorem report_exit_averages_witness:
  "raised (main idle
      (runs [idle\<lparr>submitted_exit := True, satisfaction := 4, difficulty := 1\<rparr>,
             idle\<lparr>submitted_exit := True, satisfaction := 2, difficulty := 2,
                  now_text := ''2024-05-01 10:03:00''\<rparr>] initial)) = None \<and>
   files (result_state (main idle
      (runs [idle\<lparr>submitted_exit := True, satisfaction := 4, difficulty := 1\<rparr>,
             idle\<lparr>submitted_exit := True, satisfaction := 2, difficulty := 2,
                  now_text := ''2024-05-01 10:03:00''\<rparr>] initial))) EXIT_CSV
     = Some (exit_header # map exit_line
         [\<lparr>answered = ''2024-05-01 10:00:00'', satisfied = 4, difficult = 1, feedback = ''''\<rparr>,
          \<lparr>answered = ''2024-05-01 10:03:00'', satisfied = 2, difficult = 2, feedback = ''''\<rparr>]) \<and>
   filter is_average (shown (result_state (main idle
      (runs [idle\<lparr>submitted_exit := True, satisfaction := 4, difficulty := 1\<rparr>,
             idle\<lparr>submitted_exit := True, satisfaction := 2, difficulty := 2,
                  now_text := ''2024-05-01 10:03:00''\<rparr>] initial))))
     = [Write ''**Average Satisfaction**: 3.00'', Write ''**Average Difficulty**: 1.50'']"
proof -
  let ?s = "runs [idle\<lparr>submitted_exit := True, satisfaction := 4, difficulty := 1\<rparr>,
                  idle\<lparr>submitted_exit := True, satisfaction := 2, difficulty := 2,
                       now_text := ''2024-05-01 10:03:00''\<rparr>] initial"
  let ?as = "[\<lparr>answered = ''2024-05-01 10:00:00'', satisfied = 4, difficult = 1, feedback = ''''\<rparr>,
              \<lparr>answered = ''2024-05-01 10:03:00'', satisfied = 2, difficult = 2, feedback = ''''\<rparr>]"
  have ok: "raised (main idle ?s) = None"
    by code_simp
  have exit_file: "files (result_state (main idle ?s)) EXIT_CSV = Some (exit_header # map exit_line ?as)"
    by code_simp
  have sat: "format_2f (double_of (of_int (sum_list (map satisfied ?as)) / of_nat (length ?as))) = ''3.00''"
    by code_simp
  have dif: "format_2f (double_of (of_int (sum_list (map difficult ?as)) / of_nat (length ?as))) = ''1.50''"
    by code_simp
  from report_exit_averages [OF ok] exit_file
  have "filter is_average (shown (result_state (main idle ?s))) =
      [Write (''**Average Satisfaction**: ''
                @ format_2f (double_of (of_int (sum_list (map satisfied ?as)) / of_nat (length ?as)))),
       Write (''**Average Difficulty**: ''
                @ format_2f (double_of (of_int (sum_list (map difficult ?as)) / of_nat (length ?as))))]"
    by (metis (no_types) list.distinct(1))
  then have "filter is_average (shown (result_state (main idle ?s)))
      = [Write ''**Average Satisfaction**: 3.00'', Write ''**Average Difficulty**: 1.50'']"
    unfolding sat dif by simp
  with ok exit_file show ?thesis
    by blast
qed

end
